theory Spec2Isabelle
  imports Main "HOL-Library.Word" "HOL-Library.AList" "HOL-Library.Product_Lexorder"
    "HOL-Library.Signed_Division"
begin

section \<open>Shared types\<close>

text \<open>
  \<^verbatim>\<open>ids.ID\<close> is a 32-byte array and \<^verbatim>\<open>ids.ShortID\<close>/\<^verbatim>\<open>ids.NodeID\<close> a 20-byte array;
  the byte-wise lexicographic order of such arrays is the unsigned order of the words.
\<close>

type_synonym byte = "8 word"
type_synonym ID = "256 word"
type_synonym ShortID = "160 word"

section \<open>merkledb: nodes and their value digest (\<^verbatim>\<open>x/merkledb/node.go\<close>)\<close>

text \<open>
  \<^verbatim>\<open>maybe.Maybe[[]byte]\<close> is an optional byte slice: \<^verbatim>\<open>IsNothing\<close> tests for the
  absent case and \<^verbatim>\<open>Value\<close> returns the zero slice there.
\<close>

type_synonym MaybeBytes = "byte list option"

definition IsNothing :: "MaybeBytes \<Rightarrow> bool" where
  "IsNothing m = (case m of None \<Rightarrow> True | Some _ \<Rightarrow> False)"

definition Value :: "MaybeBytes \<Rightarrow> byte list" where
  "Value m = (case m of None \<Rightarrow> [] | Some v \<Rightarrow> v)"

definition HashLength :: nat where
  "HashLength = 32"

record 'k child =
  compressedKey :: 'k
  id' :: ID
  hasValue :: bool

record 'k dbNode =
  "value" :: MaybeBytes
  children :: "byte \<rightharpoonup> 'k child"

record 'k node = "'k dbNode" +
  key :: 'k
  valueDigest :: MaybeBytes

text \<open>
  \<^verbatim>\<open>hashing.ComputeHash256\<close> lives outside the package; every function below takes it
  as the parameter \<open>ComputeHash256\<close>. The same holds for the codec's
  \<^verbatim>\<open>decodeDBNode\<close>, which either fails or fills in a \<^verbatim>\<open>dbNode\<close>.
\<close>

definition setValueDigest :: "(byte list \<Rightarrow> byte list) \<Rightarrow> 'k node \<Rightarrow> 'k node" where
  "setValueDigest ComputeHash256 n =
     (if IsNothing (value n) \<or> length (Value (value n)) < HashLength
      then n\<lparr>valueDigest := value n\<rparr>
      else n\<lparr>valueDigest := Some (ComputeHash256 (Value (value n)))\<rparr>)"

definition setValue :: "(byte list \<Rightarrow> byte list) \<Rightarrow> MaybeBytes \<Rightarrow> 'k node \<Rightarrow> 'k node" where
  "setValue ComputeHash256 val n = setValueDigest ComputeHash256 (n\<lparr>value := val\<rparr>)"

definition parseNode ::
  "(byte list \<Rightarrow> byte list) \<Rightarrow> ('tc \<Rightarrow> byte list \<Rightarrow> 'e + 'k dbNode) \<Rightarrow>
   'tc \<Rightarrow> 'k \<Rightarrow> byte list \<Rightarrow> 'e + 'k node" where
  "parseNode ComputeHash256 decodeDBNode tokenConfig k nodeBytes =
     (case decodeDBNode tokenConfig nodeBytes of
        Inl err \<Rightarrow> Inl err
      | Inr n \<Rightarrow>
          Inr (setValueDigest ComputeHash256
                 \<lparr>value = value n, children = children n, key = k, valueDigest = None\<rparr>))"

text \<open>The digest the claim describes, written from its words.\<close>

definition digest_of :: "(byte list \<Rightarrow> byte list) \<Rightarrow> MaybeBytes \<Rightarrow> MaybeBytes" where
  "digest_of ComputeHash256 v =
     (case v of
        None \<Rightarrow> None
      | Some bs \<Rightarrow> if length bs < 32 then Some bs else Some (ComputeHash256 bs))"

section \<open>Snowman getter: state-summary requests (\<^verbatim>\<open>snow/engine/snowman/getter/getter.go\<close>)\<close>

text \<open>
  A \<^verbatim>\<open>block.ChainVM\<close> may or may not also implement \<^verbatim>\<open>block.StateSyncableVM\<close>.
  The type assertion \<^verbatim>\<open>gh.vm.(block.StateSyncableVM)\<close> yields the VM's state-sync
  methods and \<^verbatim>\<open>true\<close>, or the nil interface value and \<^verbatim>\<open>false\<close>. A method call on the
  nil interface value is a run-time panic.
\<close>

record 'e Summary =
  Key :: "byte list"
  Content :: "byte list"

record 'e StateSyncableVM =
  StateSyncGetLastSummary :: "'e + 'e Summary"
  StateSyncIsSummaryAccepted :: "byte list \<Rightarrow> bool \<times> 'e option"

record 'e ChainVM =
  stateSyncable :: "'e StateSyncableVM option"

datatype event =
    LogDebug string ShortID "32 word"
  | SendStateSummaryFrontier ShortID "32 word" "byte list" "byte list"
  | SendAcceptedStateSummary ShortID "32 word" "byte list list"

datatype 'e outcome =
    Returned "'e option"
  | NilPointerDereference string

definition assertStateSyncableVM :: "'e ChainVM \<Rightarrow> 'e StateSyncableVM option \<times> bool" where
  "assertStateSyncableVM vm =
     (case stateSyncable vm of None \<Rightarrow> (None, False) | Some f \<Rightarrow> (Some f, True))"

definition GetStateSummaryFrontier ::
  "'e ChainVM \<Rightarrow> ShortID \<Rightarrow> 32 word \<Rightarrow> event list \<times> 'e outcome" where
  "GetStateSummaryFrontier vm validatorID requestID =
     (let (fsVM, ok) = assertStateSyncableVM vm;
          tr = (if \<not> ok then [LogDebug ''GetStateSummaryFrontier'' validatorID requestID] else [])
      in case fsVM of
           None \<Rightarrow> (tr, NilPointerDereference ''StateSyncGetLastSummary'')
         | Some f \<Rightarrow>
             (case StateSyncGetLastSummary f of
                Inl err \<Rightarrow> (tr, Returned (Some err))
              | Inr summary \<Rightarrow>
                  (tr @ [SendStateSummaryFrontier validatorID requestID
                           (Key summary) (Content summary)],
                   Returned None)))"

text \<open>
  The loop of \<^verbatim>\<open>GetAcceptedStateSummary\<close> over \<^verbatim>\<open>keys\<close>: \<open>Inr\<close> carries the accepted
  keys when the loop runs to its end, \<open>Inl\<close> the outcome that cut it short.
\<close>

fun acceptedKeysLoop ::
  "'e StateSyncableVM option \<Rightarrow> byte list list \<Rightarrow> byte list list \<Rightarrow>
   'e outcome + byte list list" where
  "acceptedKeysLoop fsVM [] acceptedKeys = Inr acceptedKeys"
| "acceptedKeysLoop fsVM (k # keys) acceptedKeys =
     (case fsVM of
        None \<Rightarrow> Inl (NilPointerDereference ''StateSyncIsSummaryAccepted'')
      | Some f \<Rightarrow>
          (case StateSyncIsSummaryAccepted f k of
             (accepted, err) \<Rightarrow>
               if accepted \<and> err = None then acceptedKeysLoop fsVM keys (acceptedKeys @ [k])
               else if err \<noteq> None then Inl (Returned err)
               else acceptedKeysLoop fsVM keys acceptedKeys))"

definition GetAcceptedStateSummary ::
  "'e ChainVM \<Rightarrow> ShortID \<Rightarrow> 32 word \<Rightarrow> byte list list \<Rightarrow> event list \<times> 'e outcome" where
  "GetAcceptedStateSummary vm validatorID requestID keys =
     (let (fsVM, ok) = assertStateSyncableVM vm;
          tr = (if \<not> ok then [LogDebug ''GetAcceptedStateSummary'' validatorID requestID] else [])
      in case acceptedKeysLoop fsVM keys [] of
           Inl out \<Rightarrow> (tr, out)
         | Inr acceptedKeys \<Rightarrow>
             (tr @ [SendAcceptedStateSummary validatorID requestID acceptedKeys],
              Returned None))"

section \<open>Platform chain: stakers and their indexes\<close>

text \<open>
  Only the property-test harness of the staker store is among the sources
  (\<^verbatim>\<open>vms/platformvm/state/stakers_model_storage_test.go\<close>). The store itself (the base
  state, the diff layer, the merging iterator) and the reference model are modelled
  from the specification; each such definition says so.
\<close>

datatype Priority =
    SubnetPermissionedValidatorCurrentPriority
  | SubnetPermissionlessValidatorCurrentPriority
  | PrimaryNetworkValidatorCurrentPriority
  | SubnetPermissionlessDelegatorCurrentPriority
  | PrimaryNetworkDelegatorCurrentPriority
  | SubnetPermissionedValidatorPendingPriority
  | SubnetPermissionlessValidatorPendingPriority
  | PrimaryNetworkValidatorPendingPriority
  | SubnetPermissionlessDelegatorPendingPriority
  | PrimaryNetworkDelegatorPendingPriority

text \<open>
  Times are second-precision timestamps (seconds since the epoch); a
  \<^verbatim>\<open>time.Duration\<close> is a signed 64-bit count of nanoseconds.
\<close>

type_synonym Time = int
type_synonym Duration = "64 word"

record Staker =
  TxID :: ID
  NodeID :: ShortID
  SubnetID :: ID
  Weight :: "64 word"
  StartTime :: Time
  EndTime :: Time
  NextTime :: Time
  Priority :: Priority
  PotentialReward :: "64 word"

datatype error =
    ErrNotFound
  | ErrDuplicate
  | ErrMissingValidator
  | ErrMissingParentState
  | ErrNilDiff
  | ErrOutOfFuel
  | ErrExternal nat

text \<open>
  Modelled from the spec: the staker indexes (section 4.1), which are not among the
  sources. A validator is looked up by (subnetID, nodeID), a delegator by
  (subnetID, nodeID, txID); the two kinds of primary key are the two constructors of
  \<open>PK\<close>, so that one keyed collection per category (current, pending) holds the
  validator index and the delegator index of that category. The ordered iterator sorts
  by (nextTime, txID).
\<close>

datatype PK = ValidatorKey ID ShortID | DelegatorKey ID ShortID ID

datatype Category = Current | Pending

type_synonym Index = "(PK \<times> Staker) list"

definition validatorKey :: "Staker \<Rightarrow> PK" where
  "validatorKey s = ValidatorKey (SubnetID s) (NodeID s)"

definition delegatorKey :: "Staker \<Rightarrow> PK" where
  "delegatorKey s = DelegatorKey (SubnetID s) (NodeID s) (TxID s)"

definition sortKey :: "PK \<times> Staker \<Rightarrow> Time \<times> ID" where
  "sortKey e = (NextTime (snd e), TxID (snd e))"

definition idxPut :: "PK \<Rightarrow> Staker \<Rightarrow> Index \<Rightarrow> error + Index" where
  "idxPut k s idx =
     (case map_of idx k of
        Some _ \<Rightarrow> Inl ErrDuplicate
      | None \<Rightarrow> Inr (AList.update k s idx))"

definition idxUpdate :: "PK \<Rightarrow> Staker \<Rightarrow> Index \<Rightarrow> error + Index" where
  "idxUpdate k s idx =
     (case map_of idx k of
        None \<Rightarrow> Inl ErrNotFound
      | Some _ \<Rightarrow> Inr (AList.update k s idx))"

definition idxDelete :: "PK \<Rightarrow> Index \<Rightarrow> error + Index" where
  "idxDelete k idx =
     (case map_of idx k of
        None \<Rightarrow> Inl ErrNotFound
      | Some _ \<Rightarrow> Inr (AList.delete k idx))"

definition idxIterator :: "Index \<Rightarrow> Index" where
  "idxIterator idx = sort_key sortKey idx"

section \<open>Platform chain: the reference model\<close>

text \<open>
  Modelled from the spec: \<^verbatim>\<open>stakersStorageModel\<close> (section 4.2), the in-memory oracle
  with the operations of the production store and no diffs, commits or persistence.
  Only its use is among the sources. \<open>currentValidators\<close> and the like are the
  collections the harness ranges over.
\<close>

record stakersStorageModel =
  mStakers :: "Category \<Rightarrow> Index"

definition newStakersStorageModel :: stakersStorageModel where
  "newStakersStorageModel = \<lparr>mStakers = (\<lambda>_. [])\<rparr>"

definition validatorsOf :: "Index \<Rightarrow> Staker list" where
  "validatorsOf idx =
     map snd (filter (\<lambda>e. case fst e of ValidatorKey _ _ \<Rightarrow> True | DelegatorKey _ _ _ \<Rightarrow> False) idx)"

definition delegatorsOf :: "Index \<Rightarrow> ID \<times> ShortID \<Rightarrow> Staker list" where
  "delegatorsOf idx vk =
     map snd (filter (\<lambda>e. case fst e of
                             ValidatorKey _ _ \<Rightarrow> False
                           | DelegatorKey sn nd _ \<Rightarrow> (sn, nd) = vk) idx)"

definition delegatorGroups :: "Index \<Rightarrow> Staker list list" where
  "delegatorGroups idx =
     map (delegatorsOf idx)
       (remdups (concat (map (\<lambda>e. case fst e of
                                     ValidatorKey _ _ \<Rightarrow> []
                                   | DelegatorKey sn nd _ \<Rightarrow> [(sn, nd)]) idx)))"

definition currentValidators :: "stakersStorageModel \<Rightarrow> Staker list" where
  "currentValidators m = validatorsOf (mStakers m Current)"

definition currentDelegators :: "stakersStorageModel \<Rightarrow> Staker list list" where
  "currentDelegators m = delegatorGroups (mStakers m Current)"

definition pendingValidators :: "stakersStorageModel \<Rightarrow> Staker list" where
  "pendingValidators m = validatorsOf (mStakers m Pending)"

definition pendingDelegators :: "stakersStorageModel \<Rightarrow> Staker list list" where
  "pendingDelegators m = delegatorGroups (mStakers m Pending)"

definition modelPut ::
  "Category \<Rightarrow> PK \<Rightarrow> Staker \<Rightarrow> stakersStorageModel \<Rightarrow> error option \<times> stakersStorageModel" where
  "modelPut c k s m =
     (case idxPut k s (mStakers m c) of
        Inl e \<Rightarrow> (Some e, m)
      | Inr idx \<Rightarrow> (None, m\<lparr>mStakers := (mStakers m)(c := idx)\<rparr>))"

definition modelUpdate ::
  "Category \<Rightarrow> PK \<Rightarrow> Staker \<Rightarrow> stakersStorageModel \<Rightarrow> error option \<times> stakersStorageModel" where
  "modelUpdate c k s m =
     (case idxUpdate k s (mStakers m c) of
        Inl e \<Rightarrow> (Some e, m)
      | Inr idx \<Rightarrow> (None, m\<lparr>mStakers := (mStakers m)(c := idx)\<rparr>))"

definition modelDelete ::
  "Category \<Rightarrow> PK \<Rightarrow> stakersStorageModel \<Rightarrow> error option \<times> stakersStorageModel" where
  "modelDelete c k m =
     (case idxDelete k (mStakers m c) of
        Inl e \<Rightarrow> (Some e, m)
      | Inr idx \<Rightarrow> (None, m\<lparr>mStakers := (mStakers m)(c := idx)\<rparr>))"

definition modelPutCurrentValidator ::
  "Staker \<Rightarrow> stakersStorageModel \<Rightarrow> error option \<times> stakersStorageModel" where
  "modelPutCurrentValidator s m = modelPut Current (validatorKey s) s m"

definition modelPutCurrentDelegator ::
  "Staker \<Rightarrow> stakersStorageModel \<Rightarrow> error option \<times> stakersStorageModel" where
  "modelPutCurrentDelegator s m =
     (case map_of (mStakers m Current) (validatorKey s) of
        None \<Rightarrow> (Some ErrMissingValidator, m)
      | Some _ \<Rightarrow> modelPut Current (delegatorKey s) s m)"

definition modelUpdateCurrentValidator ::
  "Staker \<Rightarrow> stakersStorageModel \<Rightarrow> error option \<times> stakersStorageModel" where
  "modelUpdateCurrentValidator s m = modelUpdate Current (validatorKey s) s m"

definition modelUpdateCurrentDelegator ::
  "Staker \<Rightarrow> stakersStorageModel \<Rightarrow> error option \<times> stakersStorageModel" where
  "modelUpdateCurrentDelegator s m = modelUpdate Current (delegatorKey s) s m"

definition modelDeleteCurrentValidator ::
  "Staker \<Rightarrow> stakersStorageModel \<Rightarrow> error option \<times> stakersStorageModel" where
  "modelDeleteCurrentValidator s m = modelDelete Current (validatorKey s) m"

definition modelDeleteCurrentDelegator ::
  "Staker \<Rightarrow> stakersStorageModel \<Rightarrow> error option \<times> stakersStorageModel" where
  "modelDeleteCurrentDelegator s m = modelDelete Current (delegatorKey s) m"

definition modelStakerIterator :: "Category \<Rightarrow> stakersStorageModel \<Rightarrow> error + Staker list" where
  "modelStakerIterator c m = Inr (map snd (idxIterator (mStakers m c)))"

definition modelGetCurrentStakerIterator :: "stakersStorageModel \<Rightarrow> error + Staker list" where
  "modelGetCurrentStakerIterator m = modelStakerIterator Current m"

section \<open>Platform chain: base state, diffs and the layer stack\<close>

text \<open>
  Modelled from the spec: the base state (section 4.3). It holds the staker indexes and
  the last accepted block identifier in memory; \<open>Commit\<close> writes them to the
  key-value database, and reopening the state from the database reads them back. The
  database \<open>DB\<close> is the last committed snapshot, absent before the first commit. The
  transaction table (\<^verbatim>\<open>AddTx\<close>/\<^verbatim>\<open>GetTx\<close>) is read by no staker operation and is left
  out.
\<close>

record State =
  stakers :: "Category \<Rightarrow> Index"
  lastAccepted :: ID

type_synonym DB = "State option"

definition GetLastAccepted :: "State \<Rightarrow> ID" where
  "GetLastAccepted st = lastAccepted st"

definition SetLastAccepted :: "ID \<Rightarrow> State \<Rightarrow> State" where
  "SetLastAccepted blkID st = st\<lparr>lastAccepted := blkID\<rparr>"

definition statePut :: "Category \<Rightarrow> PK \<Rightarrow> Staker \<Rightarrow> State \<Rightarrow> error + State" where
  "statePut c k s st =
     (case idxPut k s (stakers st c) of
        Inl e \<Rightarrow> Inl e
      | Inr idx \<Rightarrow> Inr (st\<lparr>stakers := (stakers st)(c := idx)\<rparr>))"

definition stateUpdate :: "Category \<Rightarrow> PK \<Rightarrow> Staker \<Rightarrow> State \<Rightarrow> error + State" where
  "stateUpdate c k s st =
     (case idxUpdate k s (stakers st c) of
        Inl e \<Rightarrow> Inl e
      | Inr idx \<Rightarrow> Inr (st\<lparr>stakers := (stakers st)(c := idx)\<rparr>))"

definition stateDelete :: "Category \<Rightarrow> PK \<Rightarrow> State \<Rightarrow> error + State" where
  "stateDelete c k st =
     (case idxDelete k (stakers st c) of
        Inl e \<Rightarrow> Inl e
      | Inr idx \<Rightarrow> Inr (st\<lparr>stakers := (stakers st)(c := idx)\<rparr>))"

definition Commit :: "State \<Rightarrow> DB \<Rightarrow> error + State \<times> DB" where
  "Commit st db = Inr (st, Some st)"

text \<open>
  Modelled from the spec: the diff layer (section 4.4): a parent identifier and, per
  index, the added records, the replacement records and the tombstones.
\<close>

record Diff =
  parentID :: ID
  added :: "Category \<Rightarrow> Index"
  updated :: "Category \<Rightarrow> Index"
  deleted :: "Category \<Rightarrow> PK list"

text \<open>
  The system under test of the harness: the base state over its database, and the
  stack of diffs, oldest first, each found in \<open>diffsMap\<close> under its block identifier.
\<close>

record sysUnderTest =
  diffBlkIDSeed :: "64 word"
  baseDB :: DB
  baseState :: State
  sortedDiffIDs :: "ID list"
  diffsMap :: "ID \<rightharpoonup> Diff"

text \<open>
  A \<^verbatim>\<open>Chain\<close> is either the base state or one of the diffs; the diff is named by its
  block identifier, under which the system holds it.
\<close>

datatype Chain = BaseChain | DiffChain ID

definition newSysUnderTest :: "DB \<Rightarrow> State \<Rightarrow> sysUnderTest" where
  "newSysUnderTest db st =
     \<lparr>diffBlkIDSeed = 0, baseDB = db, baseState = st, sortedDiffIDs = [], diffsMap = Map.empty\<rparr>"

definition GetState :: "sysUnderTest \<Rightarrow> ID \<Rightarrow> Chain \<times> bool" where
  "GetState s blkID =
     (case diffsMap s blkID of
        Some _ \<Rightarrow> (DiffChain blkID, True)
      | None \<Rightarrow> (BaseChain, blkID = GetLastAccepted (baseState s)))"

definition getTopChainState :: "sysUnderTest \<Rightarrow> Chain" where
  "getTopChainState s =
     (let topChainStateID =
            (if length (sortedDiffIDs s) \<noteq> 0 then last (sortedDiffIDs s)
             else GetLastAccepted (baseState s))
      in fst (GetState s topChainStateID))"

text \<open>
  Modelled from the spec: reads on a chain (section 4.4). A diff consults its
  tombstones, then its replacement records, then its added records, then its parent,
  which it finds through \<open>GetState\<close> under its parent identifier. The recursion
  through the parents is bounded by a fuel; \<open>fuel\<close> is the height of the stack, which
  suffices whenever the parents are the diffs below.
\<close>

fun chainGet ::
  "nat \<Rightarrow> sysUnderTest \<Rightarrow> Category \<Rightarrow> Chain \<Rightarrow> PK \<Rightarrow> error + Staker option" where
  "chainGet n s c BaseChain k = Inr (map_of (stakers (baseState s) c) k)"
| "chainGet 0 s c (DiffChain i) k = Inl ErrOutOfFuel"
| "chainGet (Suc n) s c (DiffChain i) k =
     (case diffsMap s i of
        None \<Rightarrow> Inl ErrNilDiff
      | Some d \<Rightarrow>
          if k \<in> set (deleted d c) then Inr None
          else (case map_of (updated d c) k of
                  Some st \<Rightarrow> Inr (Some st)
                | None \<Rightarrow>
                    (case map_of (added d c) k of
                       Some st \<Rightarrow> Inr (Some st)
                     | None \<Rightarrow>
                         (case GetState s (parentID d) of
                            (p, ok) \<Rightarrow>
                              if \<not> ok then Inl ErrMissingParentState
                              else chainGet n s c p k))))"

definition fuel :: "sysUnderTest \<Rightarrow> nat" where
  "fuel s = length (sortedDiffIDs s)"

text \<open>
  Modelled from the spec: \<^verbatim>\<open>mergeIterators\<close> (section 4.4). The first stream is the
  parent's, the second the diff's own records; both are ordered by (nextTime, txID). A
  tie between a parent record and a local record with the same primary key goes to the
  local record, and among equal sort keys the upper layer comes first.
\<close>

fun mergeIterators :: "Index \<Rightarrow> Index \<Rightarrow> Index" where
  "mergeIterators [] ls = ls"
| "mergeIterators (p # ps) [] = p # ps"
| "mergeIterators (p # ps) (l # ls) =
     (if sortKey l = sortKey p \<and> fst l = fst p then l # mergeIterators ps ls
      else if sortKey l \<le> sortKey p then l # mergeIterators (p # ps) ls
      else p # mergeIterators ps (l # ls))"

definition localRecords :: "Diff \<Rightarrow> Category \<Rightarrow> Index" where
  "localRecords d c =
     updated d c @ filter (\<lambda>e. fst e \<notin> fst ` set (updated d c)) (added d c)"

definition shadowed :: "Diff \<Rightarrow> Category \<Rightarrow> PK \<Rightarrow> bool" where
  "shadowed d c k = (k \<in> set (deleted d c) \<or> k \<in> fst ` set (updated d c))"

fun chainEntries :: "nat \<Rightarrow> sysUnderTest \<Rightarrow> Category \<Rightarrow> Chain \<Rightarrow> error + Index" where
  "chainEntries n s c BaseChain = Inr (idxIterator (stakers (baseState s) c))"
| "chainEntries 0 s c (DiffChain i) = Inl ErrOutOfFuel"
| "chainEntries (Suc n) s c (DiffChain i) =
     (case diffsMap s i of
        None \<Rightarrow> Inl ErrNilDiff
      | Some d \<Rightarrow>
          (case GetState s (parentID d) of
             (p, ok) \<Rightarrow>
               if \<not> ok then Inl ErrMissingParentState
               else (case chainEntries n s c p of
                       Inl e \<Rightarrow> Inl e
                     | Inr parentIt \<Rightarrow>
                         Inr (mergeIterators
                                (filter (\<lambda>e. \<not> shadowed d c (fst e)) parentIt)
                                (idxIterator (localRecords d c))))))"

definition stakerIterator :: "Category \<Rightarrow> sysUnderTest \<Rightarrow> Chain \<Rightarrow> error + Staker list" where
  "stakerIterator c s chain =
     (case chainEntries (fuel s) s c chain of
        Inl e \<Rightarrow> Inl e
      | Inr es \<Rightarrow> Inr (map snd es))"

definition GetCurrentStakerIterator :: "sysUnderTest \<Rightarrow> Chain \<Rightarrow> error + Staker list" where
  "GetCurrentStakerIterator s chain = stakerIterator Current s chain"

definition GetPendingStakerIterator :: "sysUnderTest \<Rightarrow> Chain \<Rightarrow> error + Staker list" where
  "GetPendingStakerIterator s chain = stakerIterator Pending s chain"

definition GetCurrentValidator ::
  "sysUnderTest \<Rightarrow> Chain \<Rightarrow> ID \<Rightarrow> ShortID \<Rightarrow> error + Staker" where
  "GetCurrentValidator s chain subnetID nodeID =
     (case chainGet (fuel s) s Current chain (ValidatorKey subnetID nodeID) of
        Inl e \<Rightarrow> Inl e
      | Inr None \<Rightarrow> Inl ErrNotFound
      | Inr (Some st) \<Rightarrow> Inr st)"

text \<open>
  Modelled from the spec: writes on a diff (section 4.4). \<open>parentGet\<close> is the diff's
  read of its parent.
  \<^item> Put on a tombstoned key drops the tombstone and records the staker as a replacement
    when the parent holds the key, as an addition when it does not. Otherwise the key
    must be new: a key among the diff's own records is already present (the rule of the
    base, which the diff mirrors), and so is a key the parent holds; both are duplicates.
  \<^item> Update needs the key visible and writes the record to \<open>updated\<close>.
  \<^item> Delete needs the key visible, writes the tombstone and drops the diff's own
    records of the key.
\<close>

definition parentGet :: "sysUnderTest \<Rightarrow> Category \<Rightarrow> Diff \<Rightarrow> PK \<Rightarrow> error + Staker option" where
  "parentGet s c d k =
     (case GetState s (parentID d) of
        (p, ok) \<Rightarrow> if \<not> ok then Inl ErrMissingParentState else chainGet (fuel s) s c p k)"

definition diffGet :: "sysUnderTest \<Rightarrow> Category \<Rightarrow> Diff \<Rightarrow> PK \<Rightarrow> error + Staker option" where
  "diffGet s c d k =
     (if k \<in> set (deleted d c) then Inr None
      else (case map_of (updated d c) k of
              Some st \<Rightarrow> Inr (Some st)
            | None \<Rightarrow>
                (case map_of (added d c) k of
                   Some st \<Rightarrow> Inr (Some st)
                 | None \<Rightarrow> parentGet s c d k)))"

definition diffPut :: "sysUnderTest \<Rightarrow> Category \<Rightarrow> PK \<Rightarrow> Staker \<Rightarrow> Diff \<Rightarrow> error + Diff" where
  "diffPut s c k st d =
     (if k \<in> set (deleted d c) then
        (case parentGet s c d k of
           Inl e \<Rightarrow> Inl e
         | Inr (Some _) \<Rightarrow>
             Inr (d\<lparr>updated := (updated d)(c := AList.update k st (updated d c)),
                    deleted := (deleted d)(c := removeAll k (deleted d c))\<rparr>)
         | Inr None \<Rightarrow>
             Inr (d\<lparr>added := (added d)(c := AList.update k st (added d c)),
                    deleted := (deleted d)(c := removeAll k (deleted d c))\<rparr>))
      else if map_of (updated d c) k \<noteq> None \<or> map_of (added d c) k \<noteq> None then Inl ErrDuplicate
      else (case parentGet s c d k of
              Inl e \<Rightarrow> Inl e
            | Inr (Some _) \<Rightarrow> Inl ErrDuplicate
            | Inr None \<Rightarrow> Inr (d\<lparr>added := (added d)(c := AList.update k st (added d c))\<rparr>)))"

definition diffUpdate :: "sysUnderTest \<Rightarrow> Category \<Rightarrow> PK \<Rightarrow> Staker \<Rightarrow> Diff \<Rightarrow> error + Diff" where
  "diffUpdate s c k st d =
     (case diffGet s c d k of
        Inl e \<Rightarrow> Inl e
      | Inr None \<Rightarrow> Inl ErrNotFound
      | Inr (Some _) \<Rightarrow> Inr (d\<lparr>updated := (updated d)(c := AList.update k st (updated d c))\<rparr>))"

definition diffDelete :: "sysUnderTest \<Rightarrow> Category \<Rightarrow> PK \<Rightarrow> Diff \<Rightarrow> error + Diff" where
  "diffDelete s c k d =
     (case diffGet s c d k of
        Inl e \<Rightarrow> Inl e
      | Inr None \<Rightarrow> Inl ErrNotFound
      | Inr (Some _) \<Rightarrow>
          Inr (d\<lparr>added := (added d)(c := AList.delete k (added d c)),
                 updated := (updated d)(c := AList.delete k (updated d c)),
                 deleted := (deleted d)(c := k # deleted d c)\<rparr>))"

text \<open>
  A write on a chain changes the base state or the diff the chain names, and returns
  the error, if any, beside the system; on an error the system is the one it was.
\<close>

definition onBase ::
  "(State \<Rightarrow> error + State) \<Rightarrow> sysUnderTest \<Rightarrow> error option \<times> sysUnderTest" where
  "onBase f s =
     (case f (baseState s) of
        Inl e \<Rightarrow> (Some e, s)
      | Inr st \<Rightarrow> (None, s\<lparr>baseState := st\<rparr>))"

definition onDiff ::
  "ID \<Rightarrow> (Diff \<Rightarrow> error + Diff) \<Rightarrow> sysUnderTest \<Rightarrow> error option \<times> sysUnderTest" where
  "onDiff i f s =
     (case diffsMap s i of
        None \<Rightarrow> (Some ErrNilDiff, s)
      | Some d \<Rightarrow>
          (case f d of
             Inl e \<Rightarrow> (Some e, s)
           | Inr d' \<Rightarrow> (None, s\<lparr>diffsMap := (diffsMap s)(i \<mapsto> d')\<rparr>)))"

definition chainPut ::
  "Category \<Rightarrow> PK \<Rightarrow> Staker \<Rightarrow> sysUnderTest \<Rightarrow> Chain \<Rightarrow> error option \<times> sysUnderTest" where
  "chainPut c k st s chain =
     (case chain of
        BaseChain \<Rightarrow> onBase (statePut c k st) s
      | DiffChain i \<Rightarrow> onDiff i (diffPut s c k st) s)"

definition chainUpdate ::
  "Category \<Rightarrow> PK \<Rightarrow> Staker \<Rightarrow> sysUnderTest \<Rightarrow> Chain \<Rightarrow> error option \<times> sysUnderTest" where
  "chainUpdate c k st s chain =
     (case chain of
        BaseChain \<Rightarrow> onBase (stateUpdate c k st) s
      | DiffChain i \<Rightarrow> onDiff i (diffUpdate s c k st) s)"

definition chainDelete ::
  "Category \<Rightarrow> PK \<Rightarrow> sysUnderTest \<Rightarrow> Chain \<Rightarrow> error option \<times> sysUnderTest" where
  "chainDelete c k s chain =
     (case chain of
        BaseChain \<Rightarrow> onBase (stateDelete c k) s
      | DiffChain i \<Rightarrow> onDiff i (diffDelete s c k) s)"

definition putValidator ::
  "Category \<Rightarrow> Staker \<Rightarrow> sysUnderTest \<Rightarrow> Chain \<Rightarrow> error option \<times> sysUnderTest" where
  "putValidator c st s chain = chainPut c (validatorKey st) st s chain"

definition putDelegator ::
  "Category \<Rightarrow> Staker \<Rightarrow> sysUnderTest \<Rightarrow> Chain \<Rightarrow> error option \<times> sysUnderTest" where
  "putDelegator c st s chain =
     (case chainGet (fuel s) s c chain (validatorKey st) of
        Inl e \<Rightarrow> (Some e, s)
      | Inr None \<Rightarrow> (Some ErrMissingValidator, s)
      | Inr (Some _) \<Rightarrow> chainPut c (delegatorKey st) st s chain)"

definition PutCurrentValidator ::
  "Staker \<Rightarrow> sysUnderTest \<Rightarrow> Chain \<Rightarrow> error option \<times> sysUnderTest" where
  "PutCurrentValidator = putValidator Current"

definition PutCurrentDelegator ::
  "Staker \<Rightarrow> sysUnderTest \<Rightarrow> Chain \<Rightarrow> error option \<times> sysUnderTest" where
  "PutCurrentDelegator = putDelegator Current"

definition PutPendingValidator ::
  "Staker \<Rightarrow> sysUnderTest \<Rightarrow> Chain \<Rightarrow> error option \<times> sysUnderTest" where
  "PutPendingValidator = putValidator Pending"

definition PutPendingDelegator ::
  "Staker \<Rightarrow> sysUnderTest \<Rightarrow> Chain \<Rightarrow> error option \<times> sysUnderTest" where
  "PutPendingDelegator = putDelegator Pending"

definition UpdateCurrentValidator ::
  "Staker \<Rightarrow> sysUnderTest \<Rightarrow> Chain \<Rightarrow> error option \<times> sysUnderTest" where
  "UpdateCurrentValidator st s chain = chainUpdate Current (validatorKey st) st s chain"

definition UpdateCurrentDelegator ::
  "Staker \<Rightarrow> sysUnderTest \<Rightarrow> Chain \<Rightarrow> error option \<times> sysUnderTest" where
  "UpdateCurrentDelegator st s chain = chainUpdate Current (delegatorKey st) st s chain"

definition DeleteCurrentValidator ::
  "Staker \<Rightarrow> sysUnderTest \<Rightarrow> Chain \<Rightarrow> error option \<times> sysUnderTest" where
  "DeleteCurrentValidator st s chain = chainDelete Current (validatorKey st) s chain"

definition DeleteCurrentDelegator ::
  "Staker \<Rightarrow> sysUnderTest \<Rightarrow> Chain \<Rightarrow> error option \<times> sysUnderTest" where
  "DeleteCurrentDelegator st s chain = chainDelete Current (delegatorKey st) s chain"

text \<open>
  Modelled from the spec: \<^verbatim>\<open>Apply\<close> (section 4.4) replays the added records, then the
  replacement records, then the tombstones onto the parent, with the parent's own
  operations. A tombstone whose key the parent does not hold (the diff deleted a
  record it had added itself) replays as nothing.
\<close>

fun replayPuts :: "Category \<Rightarrow> Index \<Rightarrow> State \<Rightarrow> error + State" where
  "replayPuts c [] st = Inr st"
| "replayPuts c (e # es) st =
     (case statePut c (fst e) (snd e) st of
        Inl err \<Rightarrow> Inl err
      | Inr st' \<Rightarrow> replayPuts c es st')"

fun replayUpdates :: "Category \<Rightarrow> Index \<Rightarrow> State \<Rightarrow> error + State" where
  "replayUpdates c [] st = Inr st"
| "replayUpdates c (e # es) st =
     (case stateUpdate c (fst e) (snd e) st of
        Inl err \<Rightarrow> Inl err
      | Inr st' \<Rightarrow> replayUpdates c es st')"

fun replayDeletes :: "Category \<Rightarrow> PK list \<Rightarrow> State \<Rightarrow> error + State" where
  "replayDeletes c [] st = Inr st"
| "replayDeletes c (k # ks) st =
     (case stateDelete c k st of
        Inl ErrNotFound \<Rightarrow> replayDeletes c ks st
      | Inl err \<Rightarrow> Inl err
      | Inr st' \<Rightarrow> replayDeletes c ks st')"

definition applyCategory :: "Category \<Rightarrow> Diff \<Rightarrow> State \<Rightarrow> error + State" where
  "applyCategory c d st =
     (case replayPuts c (added d c) st of
        Inl e \<Rightarrow> Inl e
      | Inr st1 \<Rightarrow>
          (case replayUpdates c (updated d c) st1 of
             Inl e \<Rightarrow> Inl e
           | Inr st2 \<Rightarrow> replayDeletes c (deleted d c) st2))"

definition Apply :: "Diff \<Rightarrow> State \<Rightarrow> error + State" where
  "Apply d st =
     (case applyCategory Current d st of
        Inl e \<Rightarrow> Inl e
      | Inr st1 \<Rightarrow> applyCategory Pending d st1)"

text \<open>
  Modelled from the spec: \<^verbatim>\<open>NewDiff\<close> allocates an empty diff over the parent it is
  given, which must be a state the system knows.
\<close>

definition NewDiff :: "ID \<Rightarrow> sysUnderTest \<Rightarrow> error + Diff" where
  "NewDiff parentBlkID s =
     (case GetState s parentBlkID of
        (_, ok) \<Rightarrow>
          if \<not> ok then Inl ErrMissingParentState
          else Inr \<lparr>parentID = parentBlkID, added = (\<lambda>_. []), updated = (\<lambda>_. []),
                    deleted = (\<lambda>_. [])\<rparr>)"

section \<open>Platform chain: the harness (\<^verbatim>\<open>stakers_model_storage_test.go\<close>)\<close>

text \<open>
  What the harness takes from outside the file is gathered in an environment:
  transaction identifiers and signing (package \<^verbatim>\<open>txs\<close>), the construction of a staker
  from a transaction (\<^verbatim>\<open>NewCurrentStaker\<close>), the three in-place transformations of a
  staker, the block identifiers \<^verbatim>\<open>ids.Empty.Prefix(n)\<close>, the start time the test
  binary picks once, and the state \<^verbatim>\<open>buildChainState\<close> builds from the genesis on an
  empty database. \<open>setValidator\<close> is the pair of assignments that points a delegator
  transaction at a validator.
\<close>

record 'tx Env =
  txID :: "'tx \<Rightarrow> ID"
  NewSigned :: "'tx \<Rightarrow> error + 'tx"
  setValidator :: "'tx \<Rightarrow> ID \<Rightarrow> ShortID \<Rightarrow> 'tx"
  NewCurrentStaker :: "ID \<Rightarrow> 'tx \<Rightarrow> Time \<Rightarrow> Time \<Rightarrow> 64 word \<Rightarrow> error + Staker"
  ShiftStakerAheadInPlace :: "Staker \<Rightarrow> Time \<Rightarrow> Staker"
  UpdateStakingPeriodInPlace :: "Staker \<Rightarrow> Duration \<Rightarrow> Staker"
  IncreaseStakerWeightInPlace :: "Staker \<Rightarrow> 64 word \<Rightarrow> Staker"
  Prefix :: "64 word \<Rightarrow> ID"
  dummyStartTime :: Time
  MaxTime :: Time
  genesisState :: State

definition extraWeight :: "64 word" where
  "extraWeight = 100"

text \<open>
  \<^verbatim>\<open>Time.Sub\<close> of the standard library, on second-precision times: the difference in
  nanoseconds, saturated to the range of a \<^verbatim>\<open>Duration\<close>.
\<close>

definition timeSub :: "Time \<Rightarrow> Time \<Rightarrow> Duration" where
  "timeSub t u =
     (let d = (t - u) * 1000000000
      in if d > 9223372036854775807 then word_of_int 9223372036854775807
         else if d < - 9223372036854775808 then word_of_int (- 9223372036854775808)
         else word_of_int d)"

definition pickNewStakingPeriod :: "Duration \<Rightarrow> Duration" where
  "pickNewStakingPeriod stakingPeriod =
     (if sint stakingPeriod smod 2 = 0 then stakingPeriod - 1800000000000
      else stakingPeriod + 1800000000000)"

text \<open>
  Modelled from the spec: \<^verbatim>\<open>buildChainState\<close> opens the base state over a database
  (its body is here, the \<^verbatim>\<open>New\<close> it calls is not): the last committed snapshot, or the
  genesis state when nothing was committed.
\<close>

definition buildChainState :: "'tx Env \<Rightarrow> DB \<Rightarrow> error + State" where
  "buildChainState env db =
     (case db of None \<Rightarrow> Inr (genesisState env) | Some st \<Rightarrow> Inr st)"

definition addDiffOnTop :: "'tx Env \<Rightarrow> sysUnderTest \<Rightarrow> error + sysUnderTest" where
  "addDiffOnTop env s0 =
     (let s = s0\<lparr>diffBlkIDSeed := diffBlkIDSeed s0 + 1\<rparr>;
          newTopBlkID = Prefix env (diffBlkIDSeed s);
          topBlkID =
            (if length (sortedDiffIDs s) = 0 then GetLastAccepted (baseState s)
             else last (sortedDiffIDs s))
      in case NewDiff topBlkID s of
           Inl err \<Rightarrow> Inl err
         | Inr newTopDiff \<Rightarrow>
             Inr (s\<lparr>sortedDiffIDs := sortedDiffIDs s @ [newTopBlkID],
                    diffsMap := (diffsMap s)(newTopBlkID \<mapsto> newTopDiff)\<rparr>))"

text \<open>
  \<^verbatim>\<open>flushBottomDiff\<close>: \<open>Inl\<close> is the panic, on an error of \<^verbatim>\<open>Apply\<close> or on the nil
  diff a missing map entry would give.
\<close>

definition flushBottomDiff :: "sysUnderTest \<Rightarrow> error + bool \<times> sysUnderTest" where
  "flushBottomDiff s =
     (case sortedDiffIDs s of
        [] \<Rightarrow> Inr (False, s)
      | bottomDiffID # rest \<Rightarrow>
          (case diffsMap s bottomDiffID of
             None \<Rightarrow> Inl ErrNilDiff
           | Some diffToApply \<Rightarrow>
               (case Apply diffToApply (baseState s) of
                  Inl err \<Rightarrow> Inl err
                | Inr st \<Rightarrow>
                    Inr (True,
                         s\<lparr>baseState := SetLastAccepted bottomDiffID st,
                           sortedDiffIDs := rest,
                           diffsMap := (diffsMap s)(bottomDiffID := None)\<rparr>))))"

definition commitBase :: "sysUnderTest \<Rightarrow> error + sysUnderTest" where
  "commitBase s =
     (case Commit (baseState s) (baseDB s) of
        Inl err \<Rightarrow> Inl err
      | Inr (st, db) \<Rightarrow> Inr (s\<lparr>baseState := st, baseDB := db\<rparr>))"

text \<open>
  \<^verbatim>\<open>NewSystemUnderTestFunc\<close>. The four loops put the model's stakers into the fresh
  base state, dropping what each put returns; the last loop ranges over
  \<^verbatim>\<open>model.currentDelegators\<close>, as the source does. The puts go to the base state of
  the system record, which the source wraps around the base state only at the end.
\<close>

definition NewSystemUnderTestFunc :: "'tx Env \<Rightarrow> stakersStorageModel \<Rightarrow> error + sysUnderTest" where
  "NewSystemUnderTestFunc env model =
     (case buildChainState env None of
        Inl err \<Rightarrow> Inl err
      | Inr st \<Rightarrow>
          (let s0 = newSysUnderTest None st;
               s1 = foldl (\<lambda>s staker. snd (PutCurrentValidator staker s BaseChain)) s0
                      (currentValidators model);
               s2 = foldl (\<lambda>s delegators.
                             foldl (\<lambda>s staker. snd (PutCurrentDelegator staker s BaseChain)) s
                               delegators) s1
                      (currentDelegators model);
               s3 = foldl (\<lambda>s staker. snd (PutPendingValidator staker s BaseChain)) s2
                      (pendingValidators model);
               s4 = foldl (\<lambda>s delegators.
                             foldl (\<lambda>s staker. snd (PutPendingDelegator staker s BaseChain)) s
                               delegators) s3
                      (currentDelegators model)
           in commitBase s4))"

definition isCurrentValidator :: "Staker \<Rightarrow> bool" where
  "isCurrentValidator v =
     (Priority v = SubnetPermissionedValidatorCurrentPriority
      \<or> Priority v = SubnetPermissionlessValidatorCurrentPriority
      \<or> Priority v = PrimaryNetworkValidatorCurrentPriority)"

definition isCurrentDelegator :: "Staker \<Rightarrow> bool" where
  "isCurrentDelegator v =
     (Priority v = SubnetPermissionlessDelegatorCurrentPriority
      \<or> Priority v = PrimaryNetworkDelegatorCurrentPriority)"

text \<open>
  The commands. \<open>Inl\<close> is an error returned, which \<^verbatim>\<open>Run\<close> and \<^verbatim>\<open>NextState\<close> turn
  into a panic. The search loop over the iterator, the same in every command, is
  \<open>find\<close>.
\<close>

definition putCurrentValidatorInSystem :: "'tx Env \<Rightarrow> 'tx \<Rightarrow> sysUnderTest \<Rightarrow> error + sysUnderTest" where
  "putCurrentValidatorInSystem env sTx sys =
     (case NewCurrentStaker env (txID env sTx) sTx (dummyStartTime env) (MaxTime env) 1000 of
        Inl _ \<Rightarrow> Inr sys
      | Inr currentVal \<Rightarrow> Inr (snd (PutCurrentValidator currentVal sys (getTopChainState sys))))"

definition putCurrentValidatorInModel ::
  "'tx Env \<Rightarrow> 'tx \<Rightarrow> stakersStorageModel \<Rightarrow> error + stakersStorageModel" where
  "putCurrentValidatorInModel env sTx model =
     (case NewCurrentStaker env (txID env sTx) sTx (dummyStartTime env) (MaxTime env) 1000 of
        Inl _ \<Rightarrow> Inr model
      | Inr currentVal \<Rightarrow> Inr (snd (modelPutCurrentValidator currentVal model)))"

text \<open>
  \<^verbatim>\<open>shiftCurrentValidatorInSystem\<close>, \<^verbatim>\<open>updateStakingPeriodCurrentValidatorInSystem\<close>
  and \<^verbatim>\<open>increaseWeightCurrentValidatorInSystem\<close> differ in their last step only, the
  transformation \<open>f\<close> of the staker queried; so do their counterparts on the model and
  on delegators.
\<close>

definition modifyCurrentValidatorInSystem ::
  "'tx Env \<Rightarrow> (Staker \<Rightarrow> Staker) \<Rightarrow> sysUnderTest \<Rightarrow> error + sysUnderTest" where
  "modifyCurrentValidatorInSystem env f sys =
     (case GetCurrentStakerIterator sys (getTopChainState sys) of
        Inl err \<Rightarrow> Inl err
      | Inr stakerIt \<Rightarrow>
          (case find isCurrentValidator stakerIt of
             None \<Rightarrow> Inr sys
           | Some validator \<Rightarrow>
               (case addDiffOnTop env sys of
                  Inl err \<Rightarrow> Inl err
                | Inr sys1 \<Rightarrow>
                    (let chain = getTopChainState sys1
                     in case GetCurrentValidator sys1 chain (SubnetID validator) (NodeID validator) of
                          Inl err \<Rightarrow> Inl err
                        | Inr v \<Rightarrow>
                            (case UpdateCurrentValidator (f v) sys1 chain of
                               (Some err, _) \<Rightarrow> Inl err
                             | (None, sys2) \<Rightarrow> Inr sys2)))))"

definition modifyCurrentValidatorInModel ::
  "(Staker \<Rightarrow> Staker) \<Rightarrow> stakersStorageModel \<Rightarrow> error + stakersStorageModel" where
  "modifyCurrentValidatorInModel f model =
     (case modelGetCurrentStakerIterator model of
        Inl err \<Rightarrow> Inl err
      | Inr stakerIt \<Rightarrow>
          (case find isCurrentValidator stakerIt of
             None \<Rightarrow> Inr model
           | Some validator \<Rightarrow>
               (case modelUpdateCurrentValidator (f validator) model of
                  (Some err, _) \<Rightarrow> Inl err
                | (None, model') \<Rightarrow> Inr model')))"

definition modifyCurrentDelegatorInSystem ::
  "'tx Env \<Rightarrow> (Staker \<Rightarrow> Staker) \<Rightarrow> sysUnderTest \<Rightarrow> error + sysUnderTest" where
  "modifyCurrentDelegatorInSystem env f sys =
     (case GetCurrentStakerIterator sys (getTopChainState sys) of
        Inl err \<Rightarrow> Inl err
      | Inr stakerIt \<Rightarrow>
          (case find isCurrentDelegator stakerIt of
             None \<Rightarrow> Inr sys
           | Some delegator \<Rightarrow>
               (case addDiffOnTop env sys of
                  Inl err \<Rightarrow> Inl err
                | Inr sys1 \<Rightarrow>
                    (case UpdateCurrentDelegator (f delegator) sys1 (getTopChainState sys1) of
                       (Some err, _) \<Rightarrow> Inl err
                     | (None, sys2) \<Rightarrow> Inr sys2))))"

definition modifyCurrentDelegatorInModel ::
  "(Staker \<Rightarrow> Staker) \<Rightarrow> stakersStorageModel \<Rightarrow> error + stakersStorageModel" where
  "modifyCurrentDelegatorInModel f model =
     (case modelGetCurrentStakerIterator model of
        Inl err \<Rightarrow> Inl err
      | Inr stakerIt \<Rightarrow>
          (case find isCurrentDelegator stakerIt of
             None \<Rightarrow> Inr model
           | Some delegator \<Rightarrow>
               (case modelUpdateCurrentDelegator (f delegator) model of
                  (Some err, _) \<Rightarrow> Inl err
                | (None, model') \<Rightarrow> Inr model')))"

definition shiftStaker :: "'tx Env \<Rightarrow> Staker \<Rightarrow> Staker" where
  "shiftStaker env v = ShiftStakerAheadInPlace env v (NextTime v)"

definition updateStakingPeriod :: "'tx Env \<Rightarrow> Staker \<Rightarrow> Staker" where
  "updateStakingPeriod env v =
     UpdateStakingPeriodInPlace env v (pickNewStakingPeriod (timeSub (EndTime v) (StartTime v)))"

definition increaseWeight :: "'tx Env \<Rightarrow> Staker \<Rightarrow> Staker" where
  "increaseWeight env v = IncreaseStakerWeightInPlace env v (Weight v + extraWeight)"

definition shiftCurrentValidatorInSystem :: "'tx Env \<Rightarrow> sysUnderTest \<Rightarrow> error + sysUnderTest" where
  "shiftCurrentValidatorInSystem env = modifyCurrentValidatorInSystem env (shiftStaker env)"

definition shiftCurrentValidatorInModel ::
  "'tx Env \<Rightarrow> stakersStorageModel \<Rightarrow> error + stakersStorageModel" where
  "shiftCurrentValidatorInModel env = modifyCurrentValidatorInModel (shiftStaker env)"

definition updateStakingPeriodCurrentValidatorInSystem ::
  "'tx Env \<Rightarrow> sysUnderTest \<Rightarrow> error + sysUnderTest" where
  "updateStakingPeriodCurrentValidatorInSystem env =
     modifyCurrentValidatorInSystem env (updateStakingPeriod env)"

definition updateStakingPeriodCurrentValidatorInModel ::
  "'tx Env \<Rightarrow> stakersStorageModel \<Rightarrow> error + stakersStorageModel" where
  "updateStakingPeriodCurrentValidatorInModel env =
     modifyCurrentValidatorInModel (updateStakingPeriod env)"

definition increaseWeightCurrentValidatorInSystem ::
  "'tx Env \<Rightarrow> sysUnderTest \<Rightarrow> error + sysUnderTest" where
  "increaseWeightCurrentValidatorInSystem env =
     modifyCurrentValidatorInSystem env (increaseWeight env)"

definition increaseWeightCurrentValidatorInModel ::
  "'tx Env \<Rightarrow> stakersStorageModel \<Rightarrow> error + stakersStorageModel" where
  "increaseWeightCurrentValidatorInModel env =
     modifyCurrentValidatorInModel (increaseWeight env)"

definition shiftCurrentDelegatorInSystem :: "'tx Env \<Rightarrow> sysUnderTest \<Rightarrow> error + sysUnderTest" where
  "shiftCurrentDelegatorInSystem env = modifyCurrentDelegatorInSystem env (shiftStaker env)"

definition shiftCurrentDelegatorInModel ::
  "'tx Env \<Rightarrow> stakersStorageModel \<Rightarrow> error + stakersStorageModel" where
  "shiftCurrentDelegatorInModel env = modifyCurrentDelegatorInModel (shiftStaker env)"

definition updateStakingPeriodCurrentDelegatorInSystem ::
  "'tx Env \<Rightarrow> sysUnderTest \<Rightarrow> error + sysUnderTest" where
  "updateStakingPeriodCurrentDelegatorInSystem env =
     modifyCurrentDelegatorInSystem env (updateStakingPeriod env)"

definition updateStakingPeriodCurrentDelegatorInModel ::
  "'tx Env \<Rightarrow> stakersStorageModel \<Rightarrow> error + stakersStorageModel" where
  "updateStakingPeriodCurrentDelegatorInModel env =
     modifyCurrentDelegatorInModel (updateStakingPeriod env)"

definition increaseWeightCurrentDelegatorInSystem ::
  "'tx Env \<Rightarrow> sysUnderTest \<Rightarrow> error + sysUnderTest" where
  "increaseWeightCurrentDelegatorInSystem env =
     modifyCurrentDelegatorInSystem env (increaseWeight env)"

definition increaseWeightCurrentDelegatorInModel ::
  "'tx Env \<Rightarrow> stakersStorageModel \<Rightarrow> error + stakersStorageModel" where
  "increaseWeightCurrentDelegatorInModel env =
     modifyCurrentDelegatorInModel (increaseWeight env)"

definition deleteCurrentValidatorInSystem :: "sysUnderTest \<Rightarrow> error + sysUnderTest" where
  "deleteCurrentValidatorInSystem sys =
     (let topDiff = getTopChainState sys
      in case GetCurrentStakerIterator sys topDiff of
           Inl err \<Rightarrow> Inl err
         | Inr stakerIt \<Rightarrow>
             (case find isCurrentValidator stakerIt of
                None \<Rightarrow> Inr sys
              | Some validator \<Rightarrow> Inr (snd (DeleteCurrentValidator validator sys topDiff))))"

definition deleteCurrentValidatorInModel :: "stakersStorageModel \<Rightarrow> error + stakersStorageModel" where
  "deleteCurrentValidatorInModel model =
     (case modelGetCurrentStakerIterator model of
        Inl err \<Rightarrow> Inl err
      | Inr stakerIt \<Rightarrow>
          (case find isCurrentValidator stakerIt of
             None \<Rightarrow> Inr model
           | Some validator \<Rightarrow> Inr (snd (modelDeleteCurrentValidator validator model))))"

definition deleteCurrentDelegator :: "sysUnderTest \<Rightarrow> error + bool \<times> sysUnderTest" where
  "deleteCurrentDelegator sys =
     (let topDiff = getTopChainState sys
      in case GetCurrentStakerIterator sys topDiff of
           Inl err \<Rightarrow> Inl err
         | Inr stakerIt \<Rightarrow>
             (case find isCurrentDelegator stakerIt of
                None \<Rightarrow> Inr (False, sys)
              | Some delegator \<Rightarrow> Inr (True, snd (DeleteCurrentDelegator delegator sys topDiff))))"

definition deleteCurrentDelegatorInModel :: "stakersStorageModel \<Rightarrow> error + stakersStorageModel" where
  "deleteCurrentDelegatorInModel model =
     (case modelGetCurrentStakerIterator model of
        Inl err \<Rightarrow> Inl err
      | Inr stakerIt \<Rightarrow>
          (case find isCurrentDelegator stakerIt of
             None \<Rightarrow> Inr model
           | Some delegator \<Rightarrow> Inr (snd (modelDeleteCurrentDelegator delegator model))))"

definition newDelegator :: "'tx Env \<Rightarrow> 'tx \<Rightarrow> Staker \<Rightarrow> error + Staker" where
  "newDelegator env candidateDelegatorTx validator =
     (case NewSigned env (setValidator env candidateDelegatorTx (SubnetID validator) (NodeID validator)) of
        Inl err \<Rightarrow> Inl err
      | Inr signedTx \<Rightarrow>
          NewCurrentStaker env (txID env signedTx) signedTx (dummyStartTime env) (MaxTime env) 1000)"

definition addCurrentDelegatorInSystem ::
  "'tx Env \<Rightarrow> sysUnderTest \<Rightarrow> 'tx \<Rightarrow> error + sysUnderTest" where
  "addCurrentDelegatorInSystem env sys candidateDelegatorTx =
     (let chain = getTopChainState sys
      in case GetCurrentStakerIterator sys chain of
           Inl err \<Rightarrow> Inl err
         | Inr stakerIt \<Rightarrow>
             (case find isCurrentValidator stakerIt of
                None \<Rightarrow> Inr sys
              | Some validator \<Rightarrow>
                  (case newDelegator env candidateDelegatorTx validator of
                     Inl err \<Rightarrow> Inl err
                   | Inr delegator \<Rightarrow> Inr (snd (PutCurrentDelegator delegator sys chain)))))"

definition addCurrentDelegatorInModel ::
  "'tx Env \<Rightarrow> stakersStorageModel \<Rightarrow> 'tx \<Rightarrow> error + stakersStorageModel" where
  "addCurrentDelegatorInModel env model candidateDelegatorTx =
     (case modelGetCurrentStakerIterator model of
        Inl err \<Rightarrow> Inl err
      | Inr stakerIt \<Rightarrow>
          (case find isCurrentValidator stakerIt of
             None \<Rightarrow> Inr model
           | Some validator \<Rightarrow>
               (case newDelegator env candidateDelegatorTx validator of
                  Inl err \<Rightarrow> Inl err
                | Inr delegator \<Rightarrow> Inr (snd (modelPutCurrentDelegator delegator model)))))"

text \<open>
  The loop of \<^verbatim>\<open>rebuildStateCommand.Run\<close> that flushes every diff, committing the base
  after each flush. Each round shortens the stack, which bounds the loop.
\<close>

function flushAll :: "sysUnderTest \<Rightarrow> error + sysUnderTest" where
  "flushAll sys =
     (case flushBottomDiff sys of
        Inl err \<Rightarrow> Inl err
      | Inr (False, sys') \<Rightarrow> Inr sys'
      | Inr (True, sys') \<Rightarrow>
          (case commitBase sys' of
             Inl err \<Rightarrow> Inl err
           | Inr sys'' \<Rightarrow> flushAll sys''))"
  by pat_completeness auto
termination
  by (relation "measure (\<lambda>s. length (sortedDiffIDs s))")
     (auto simp: flushBottomDiff_def commitBase_def Commit_def
        split: list.splits option.splits sum.splits)

declare flushAll.simps [simp del]

definition rebuildState :: "'tx Env \<Rightarrow> sysUnderTest \<Rightarrow> error + sysUnderTest" where
  "rebuildState env sys0 =
     (case flushAll sys0 of
        Inl err \<Rightarrow> Inl err
      | Inr sys1 \<Rightarrow>
          (case commitBase sys1 of
             Inl err \<Rightarrow> Inl err
           | Inr sys \<Rightarrow>
               (case buildChainState env (baseDB sys) of
                  Inl err \<Rightarrow> Inl err
                | Inr st \<Rightarrow>
                    Inr (sys\<lparr>baseState := st, diffsMap := Map.empty, sortedDiffIDs := []\<rparr>))))"

datatype 'tx command =
    putCurrentValidatorCommand 'tx
  | shiftCurrentValidatorCommand
  | updateStakingPeriodCurrentValidatorCommand
  | increaseWeightCurrentValidatorCommand
  | deleteCurrentValidatorCommand
  | putCurrentDelegatorCommand 'tx
  | shiftCurrentDelegatorCommand
  | updateStakingPeriodCurrentDelegatorCommand
  | increaseWeightCurrentDelegatorCommand
  | deleteCurrentDelegatorCommand
  | addTopDiffCommand
  | applyBottomDiffCommand
  | commitBottomStateCommand
  | rebuildStateCommand

fun Run :: "'tx Env \<Rightarrow> 'tx command \<Rightarrow> sysUnderTest \<Rightarrow> error + sysUnderTest" where
  "Run env (putCurrentValidatorCommand sTx) sys = putCurrentValidatorInSystem env sTx sys"
| "Run env shiftCurrentValidatorCommand sys = shiftCurrentValidatorInSystem env sys"
| "Run env updateStakingPeriodCurrentValidatorCommand sys =
     updateStakingPeriodCurrentValidatorInSystem env sys"
| "Run env increaseWeightCurrentValidatorCommand sys =
     increaseWeightCurrentValidatorInSystem env sys"
| "Run env deleteCurrentValidatorCommand sys = deleteCurrentValidatorInSystem sys"
| "Run env (putCurrentDelegatorCommand candidateDelegator) sys =
     addCurrentDelegatorInSystem env sys candidateDelegator"
| "Run env shiftCurrentDelegatorCommand sys = shiftCurrentDelegatorInSystem env sys"
| "Run env updateStakingPeriodCurrentDelegatorCommand sys =
     updateStakingPeriodCurrentDelegatorInSystem env sys"
| "Run env increaseWeightCurrentDelegatorCommand sys =
     increaseWeightCurrentDelegatorInSystem env sys"
| "Run env deleteCurrentDelegatorCommand sys =
     (case deleteCurrentDelegator sys of Inl err \<Rightarrow> Inl err | Inr (_, sys') \<Rightarrow> Inr sys')"
| "Run env addTopDiffCommand sys = addDiffOnTop env sys"
| "Run env applyBottomDiffCommand sys =
     (case flushBottomDiff sys of Inl err \<Rightarrow> Inl err | Inr (_, sys') \<Rightarrow> Inr sys')"
| "Run env commitBottomStateCommand sys = commitBase sys"
| "Run env rebuildStateCommand sys = rebuildState env sys"

fun NextState :: "'tx Env \<Rightarrow> 'tx command \<Rightarrow> stakersStorageModel \<Rightarrow> error + stakersStorageModel" where
  "NextState env (putCurrentValidatorCommand sTx) model = putCurrentValidatorInModel env sTx model"
| "NextState env shiftCurrentValidatorCommand model = shiftCurrentValidatorInModel env model"
| "NextState env updateStakingPeriodCurrentValidatorCommand model =
     updateStakingPeriodCurrentValidatorInModel env model"
| "NextState env increaseWeightCurrentValidatorCommand model =
     increaseWeightCurrentValidatorInModel env model"
| "NextState env deleteCurrentValidatorCommand model = deleteCurrentValidatorInModel model"
| "NextState env (putCurrentDelegatorCommand candidateDelegator) model =
     addCurrentDelegatorInModel env model candidateDelegator"
| "NextState env shiftCurrentDelegatorCommand model = shiftCurrentDelegatorInModel env model"
| "NextState env updateStakingPeriodCurrentDelegatorCommand model =
     updateStakingPeriodCurrentDelegatorInModel env model"
| "NextState env increaseWeightCurrentDelegatorCommand model =
     increaseWeightCurrentDelegatorInModel env model"
| "NextState env deleteCurrentDelegatorCommand model = deleteCurrentDelegatorInModel model"
| "NextState env addTopDiffCommand model = Inr model"
| "NextState env applyBottomDiffCommand model = Inr model"
| "NextState env commitBottomStateCommand model = Inr model"
| "NextState env rebuildStateCommand model = Inr model"

datatype PropResult = PropTrue | PropFalse | PropError

text \<open>
  \<^verbatim>\<open>checkSystemAndModelContent\<close>. Every staker an iterator yields is a record, never
  nil, so the comparison at an index is \<^verbatim>\<open>reflect.DeepEqual\<close>, the equality of all
  fields.
\<close>

fun allDeepEqual :: "Staker list \<Rightarrow> Staker list \<Rightarrow> bool" where
  "allDeepEqual [] sysStakers = True"
| "allDeepEqual (modelStaker # ms) [] = False"
| "allDeepEqual (modelStaker # ms) (sysStaker # ss) =
     (if modelStaker \<noteq> sysStaker then False else allDeepEqual ms ss)"

definition checkSystemAndModelContent :: "stakersStorageModel \<Rightarrow> sysUnderTest \<Rightarrow> PropResult" where
  "checkSystemAndModelContent model sys =
     (let topDiff = getTopChainState sys
      in case modelGetCurrentStakerIterator model of
           Inl _ \<Rightarrow> PropFalse
         | Inr modelStakers \<Rightarrow>
             (case GetCurrentStakerIterator sys topDiff of
                Inl _ \<Rightarrow> PropFalse
              | Inr sysStakers \<Rightarrow>
                  if length modelStakers \<noteq> length sysStakers then PropFalse
                  else if allDeepEqual modelStakers sysStakers then PropTrue
                  else PropFalse))"

text \<open>
  The property \<^verbatim>\<open>commands.Prop(stakersCommands)\<close>: from the initial model and the system
  built for it, each command runs on the system, then moves the model, then its
  postcondition, which is \<^verbatim>\<open>checkSystemAndModelContent\<close> for every command, is checked.
  Every precondition is \<^verbatim>\<open>true\<close>.
\<close>

definition runCommand ::
  "'tx Env \<Rightarrow> 'tx command \<Rightarrow> sysUnderTest \<times> stakersStorageModel \<Rightarrow>
   error + sysUnderTest \<times> stakersStorageModel" where
  "runCommand env cmd st =
     (case Run env cmd (fst st) of
        Inl err \<Rightarrow> Inl err
      | Inr sys \<Rightarrow>
          (case NextState env cmd (snd st) of
             Inl err \<Rightarrow> Inl err
           | Inr model \<Rightarrow> Inr (sys, model)))"

fun runCommands ::
  "'tx Env \<Rightarrow> 'tx command list \<Rightarrow> sysUnderTest \<times> stakersStorageModel \<Rightarrow> PropResult" where
  "runCommands env [] st = PropTrue"
| "runCommands env (cmd # cmds) st =
     (case runCommand env cmd st of
        Inl _ \<Rightarrow> PropError
      | Inr st' \<Rightarrow>
          (case checkSystemAndModelContent (snd st') (fst st') of
             PropTrue \<Rightarrow> runCommands env cmds st'
           | r \<Rightarrow> r))"

definition stateAndDiffComparisonToStorageModel :: "'tx Env \<Rightarrow> 'tx command list \<Rightarrow> PropResult" where
  "stateAndDiffComparisonToStorageModel env cmds =
     (case NewSystemUnderTestFunc env newStakersStorageModel of
        Inl _ \<Rightarrow> PropError
      | Inr sys \<Rightarrow> runCommands env cmds (sys, newStakersStorageModel))"

section \<open>Platform chain: what a well-formed layer stack denotes\<close>

text \<open>
  The view of a diff over the view of its parent, and the view of a stack of diffs
  (topmost first) over a base state: the partial map from primary keys to stakers
  that reads see.
\<close>

definition diffView :: "Category \<Rightarrow> Diff \<Rightarrow> (PK \<rightharpoonup> Staker) \<Rightarrow> (PK \<rightharpoonup> Staker)" where
  "diffView c d pv =
     (\<lambda>k. if k \<in> set (deleted d c) then None
          else (case map_of (updated d c) k of
                  Some st \<Rightarrow> Some st
                | None \<Rightarrow> (case map_of (added d c) k of Some st \<Rightarrow> Some st | None \<Rightarrow> pv k)))"

fun stackView :: "Category \<Rightarrow> State \<Rightarrow> Diff list \<Rightarrow> (PK \<rightharpoonup> Staker)" where
  "stackView c b [] = map_of (stakers b c)"
| "stackView c b (d # ds) = diffView c d (stackView c b ds)"

definition diffEntries :: "Category \<Rightarrow> Diff \<Rightarrow> Index \<Rightarrow> Index" where
  "diffEntries c d parentIt =
     mergeIterators (filter (\<lambda>e. \<not> shadowed d c (fst e)) parentIt)
       (idxIterator (localRecords d c))"

fun stackEntries :: "Category \<Rightarrow> State \<Rightarrow> Diff list \<Rightarrow> Index" where
  "stackEntries c b [] = idxIterator (stakers b c)"
| "stackEntries c b (d # ds) = diffEntries c d (stackEntries c b ds)"

text \<open>
  \<open>linked s chain xs\<close>: following the parent identifiers from \<open>chain\<close> through
  \<open>GetState\<close> passes the diffs \<open>xs\<close> (topmost first, each with its block identifier,
  none twice) and ends at the base state.
\<close>

inductive linked :: "sysUnderTest \<Rightarrow> Chain \<Rightarrow> (ID \<times> Diff) list \<Rightarrow> bool" where
  linked_base: "linked s BaseChain []"
| linked_diff:
    "diffsMap s i = Some d \<Longrightarrow> GetState s (parentID d) = (p, True) \<Longrightarrow> linked s p xs \<Longrightarrow>
     i \<notin> fst ` set xs \<Longrightarrow> linked s (DiffChain i) ((i, d) # xs)"

definition wfStack :: "sysUnderTest \<Rightarrow> (ID \<times> Diff) list \<Rightarrow> bool" where
  "wfStack s xs =
     (linked s (getTopChainState s) xs
      \<and> map fst xs = rev (sortedDiffIDs s)
      \<and> dom (diffsMap s) = set (sortedDiffIDs s))"

text \<open>
  A diff is consistent with the view of its parent when its collections have no key
  twice, no tombstoned key is among its records, it adds no key the parent holds, and
  it replaces only keys the parent holds or it has added.
\<close>

definition consistent :: "Category \<Rightarrow> Diff \<Rightarrow> (PK \<rightharpoonup> Staker) \<Rightarrow> bool" where
  "consistent c d pv =
     (distinct (map fst (added d c)) \<and> distinct (map fst (updated d c))
      \<and> set (deleted d c) \<inter> (fst ` set (added d c) \<union> fst ` set (updated d c)) = {}
      \<and> fst ` set (added d c) \<inter> dom pv = {}
      \<and> fst ` set (updated d c) \<subseteq> dom pv \<union> fst ` set (added d c))"

fun stackOK :: "Category \<Rightarrow> State \<Rightarrow> Diff list \<Rightarrow> bool" where
  "stackOK c b [] = distinct (map fst (stakers b c))"
| "stackOK c b (d # ds) = (consistent c d (stackView c b ds) \<and> stackOK c b ds)"

definition layered :: "sysUnderTest \<Rightarrow> (ID \<times> Diff) list \<Rightarrow> bool" where
  "layered s xs = (wfStack s xs \<and> (\<forall>c. stackOK c (baseState s) (map snd xs)))"

definition topView :: "Category \<Rightarrow> sysUnderTest \<Rightarrow> (ID \<times> Diff) list \<Rightarrow> (PK \<rightharpoonup> Staker)" where
  "topView c s xs = stackView c (baseState s) (map snd xs)"

text \<open>
  \<open>sameElsewhere c d d'\<close>: the diff \<open>d'\<close> differs from \<open>d\<close> in category \<open>c\<close> at most.
  \<open>sameShape s s'\<close>: the systems have the same stack of block identifiers, the same
  seed, database and last accepted block.
\<close>

definition sameElsewhere :: "Category \<Rightarrow> Diff \<Rightarrow> Diff \<Rightarrow> bool" where
  "sameElsewhere c d d' =
     (parentID d' = parentID d
      \<and> (\<forall>c'. c' \<noteq> c \<longrightarrow>
            added d' c' = added d c' \<and> updated d' c' = updated d c' \<and> deleted d' c' = deleted d c'))"

definition sameShape :: "sysUnderTest \<Rightarrow> sysUnderTest \<Rightarrow> bool" where
  "sameShape s s' =
     (sortedDiffIDs s' = sortedDiffIDs s \<and> diffBlkIDSeed s' = diffBlkIDSeed s
      \<and> baseDB s' = baseDB s \<and> lastAccepted (baseState s') = lastAccepted (baseState s))"

text \<open>
  \<open>wrote c s xs s' v\<close>: the system \<open>s'\<close> is again a stack of consistent layers of the
  shape of \<open>s\<close>, and its top view is \<open>v\<close> in category \<open>c\<close> and that of \<open>s\<close> elsewhere.
\<close>

definition wrote ::
  "Category \<Rightarrow> sysUnderTest \<Rightarrow> (ID \<times> Diff) list \<Rightarrow> sysUnderTest \<Rightarrow> (PK \<rightharpoonup> Staker) \<Rightarrow> bool" where
  "wrote c s xs s' v =
     (\<exists>xs'. layered s' xs' \<and> sameShape s s'
        \<and> (\<forall>c'. topView c' s' xs' = (if c' = c then v else topView c' s xs)))"

definition freshIDs :: "'tx Env \<Rightarrow> sysUnderTest \<Rightarrow> bool" where
  "freshIDs env s =
     (\<forall>i \<in> insert (lastAccepted (baseState s)) (set (sortedDiffIDs s)).
        i = lastAccepted (genesisState env) \<or> (\<exists>j. j \<le> diffBlkIDSeed s \<and> i = Prefix env j))"

text \<open>
  The stakers of the model are keyed as the harness puts them: a staker with a
  validator priority under its validator key, one with a delegator priority under its
  delegator key.
\<close>

definition keyed :: "Index \<Rightarrow> bool" where
  "keyed idx =
     (\<forall>e \<in> set idx.
        (isCurrentValidator (snd e) \<longrightarrow> fst e = validatorKey (snd e))
        \<and> (isCurrentDelegator (snd e) \<longrightarrow> fst e = delegatorKey (snd e)))"

text \<open>
  The invariant of the property test: the system is a well-formed stack of consistent
  layers whose top view of the current stakers is the content of the model. \<open>n\<close>
  bounds the block identifiers still to be drawn.
\<close>

definition Inv :: "'tx Env \<Rightarrow> sysUnderTest \<Rightarrow> stakersStorageModel \<Rightarrow> nat \<Rightarrow> bool" where
  "Inv env s m n =
     (\<exists>xs. layered s xs
        \<and> freshIDs env s
        \<and> unat (diffBlkIDSeed s) + n < 2 ^ 64
        \<and> topView Current s xs = map_of (mStakers m Current)
        \<and> distinct (map fst (mStakers m Current))
        \<and> keyed (mStakers m Current))"

text \<open>
  What the harness is assumed to get from outside. Block identifiers are hashes:
  \<open>Prefix\<close> is injective and never the genesis block. The genesis has no stakers. The
  in-place transformations keep the identity and the priority of a staker. The
  transaction of a put-validator command yields a staker of validator priority, if
  any; the transaction of a put-delegator command, pointed at any validator, yields a
  staker of delegator priority.
\<close>

definition keepsIdentity :: "(Staker \<Rightarrow> Staker) \<Rightarrow> bool" where
  "keepsIdentity f =
     (\<forall>v. TxID (f v) = TxID v \<and> SubnetID (f v) = SubnetID v \<and> NodeID (f v) = NodeID v
          \<and> Priority (f v) = Priority v)"

definition goodEnv :: "'tx Env \<Rightarrow> bool" where
  "goodEnv env =
     (inj (Prefix env)
      \<and> (\<forall>n. Prefix env n \<noteq> lastAccepted (genesisState env))
      \<and> (\<forall>c. stakers (genesisState env) c = [])
      \<and> keepsIdentity (shiftStaker env)
      \<and> keepsIdentity (updateStakingPeriod env)
      \<and> keepsIdentity (increaseWeight env))"

fun goodCommand :: "'tx Env \<Rightarrow> 'tx command \<Rightarrow> bool" where
  "goodCommand env (putCurrentValidatorCommand sTx) =
     (\<forall>st. NewCurrentStaker env (txID env sTx) sTx (dummyStartTime env) (MaxTime env) 1000 = Inr st
            \<longrightarrow> isCurrentValidator st)"
| "goodCommand env (putCurrentDelegatorCommand tx) =
     (\<forall>v. \<exists>st. newDelegator env tx v = Inr st \<and> isCurrentDelegator st)"
| "goodCommand env _ = True"

text \<open>
  Transaction identifiers are hashes of the transactions: along the run, no two
  current stakers of the model share one.
\<close>

definition uniqueTxIDs :: "stakersStorageModel \<Rightarrow> bool" where
  "uniqueTxIDs m = distinct (map (\<lambda>e. TxID (snd e)) (mStakers m Current))"

fun uniqueAlong :: "'tx Env \<Rightarrow> 'tx command list \<Rightarrow> stakersStorageModel \<Rightarrow> bool" where
  "uniqueAlong env [] m = uniqueTxIDs m"
| "uniqueAlong env (cmd # cmds) m =
     (uniqueTxIDs m
      \<and> (case NextState env cmd m of Inl _ \<Rightarrow> True | Inr m' \<Rightarrow> uniqueAlong env cmds m'))"

text \<open>The state a sequence of commands leads to, with no check on the way.\<close>

fun execCommands ::
  "'tx Env \<Rightarrow> 'tx command list \<Rightarrow> sysUnderTest \<times> stakersStorageModel \<Rightarrow>
   error + sysUnderTest \<times> stakersStorageModel" where
  "execCommands env [] st = Inr st"
| "execCommands env (cmd # cmds) st =
     (case runCommand env cmd st of
        Inl err \<Rightarrow> Inl err
      | Inr st' \<Rightarrow> execCommands env cmds st')"

definition initialState :: "'tx Env \<Rightarrow> error + sysUnderTest \<times> stakersStorageModel" where
  "initialState env =
     (case NewSystemUnderTestFunc env newStakersStorageModel of
        Inl err \<Rightarrow> Inl err
      | Inr sys \<Rightarrow> Inr (sys, newStakersStorageModel))"

text \<open>The order of the iterators: by next time, then by transaction identifier.\<close>

definition stakerLeq :: "Staker \<Rightarrow> Staker \<Rightarrow> bool" where
  "stakerLeq a b =
     (NextTime a < NextTime b \<or> (NextTime a = NextTime b \<and> TxID a \<le> TxID b))"

section \<open>Results on merkledb nodes\<close>

text \<open>
  C10. After \<^verbatim>\<open>setValue(v)\<close>, and in every node that \<^verbatim>\<open>parseNode\<close> returns, the value
  digest is the value itself when the value is Nothing or shorter than 32 bytes, and
  Some of the hash of the value otherwise.
\<close>

theorem C10_valueDigest:
  "valueDigest (setValue H v n) = digest_of H v
   \<and> value (setValue H v n) = v
   \<and> (case parseNode H dec tc k bs of
        Inl err \<Rightarrow> dec tc bs = Inl err
      | Inr r \<Rightarrow> (\<exists>d. dec tc bs = Inr d \<and> value r = value d)
                 \<and> key r = k \<and> valueDigest r = digest_of H (value r))"
  by (auto simp: setValue_def setValueDigest_def parseNode_def digest_of_def IsNothing_def
        Value_def HashLength_def split: option.splits sum.splits)

section \<open>Results on the getter\<close>

text \<open>
  C9, as amended. When the VM does not implement \<^verbatim>\<open>StateSyncableVM\<close>, neither handler
  returns after the failed type assertion. \<^verbatim>\<open>GetStateSummaryFrontier\<close> logs and then
  calls \<^verbatim>\<open>StateSyncGetLastSummary\<close> on the nil value. \<^verbatim>\<open>GetAcceptedStateSummary\<close> logs
  and then calls \<^verbatim>\<open>StateSyncIsSummaryAccepted\<close> on the nil value for the first key; with
  no keys the loop body never runs, no state-sync method is called, and the handler
  sends the empty list of accepted keys and returns nil.
\<close>

theorem C9_no_early_return:
  "stateSyncable vm = None \<Longrightarrow>
     GetStateSummaryFrontier vm v r =
       ([LogDebug ''GetStateSummaryFrontier'' v r],
        NilPointerDereference ''StateSyncGetLastSummary'')
   \<and> GetAcceptedStateSummary vm v r (k # ks) =
       ([LogDebug ''GetAcceptedStateSummary'' v r],
        NilPointerDereference ''StateSyncIsSummaryAccepted'')
   \<and> GetAcceptedStateSummary vm v r [] =
       ([LogDebug ''GetAcceptedStateSummary'' v r, SendAcceptedStateSummary v r []],
        Returned None)"
  by (simp add: GetStateSummaryFrontier_def GetAcceptedStateSummary_def
        assertStateSyncableVM_def)

theorem C9_no_early_return_witness:
  "stateSyncable (\<lparr>stateSyncable = None\<rparr> :: unit ChainVM) = None
   \<and> GetStateSummaryFrontier (\<lparr>stateSyncable = None\<rparr> :: unit ChainVM) 7 1 =
       ([LogDebug ''GetStateSummaryFrontier'' 7 1],
        NilPointerDereference ''StateSyncGetLastSummary'')
   \<and> GetAcceptedStateSummary (\<lparr>stateSyncable = None\<rparr> :: unit ChainVM) 7 1 [[1, 2]] =
       ([LogDebug ''GetAcceptedStateSummary'' 7 1],
        NilPointerDereference ''StateSyncIsSummaryAccepted'')"
  using C9_no_early_return [of "\<lparr>stateSyncable = None\<rparr> :: unit ChainVM" 7 1 "[1, 2]" "[]"]
  by simp

text \<open>
  C9 as stated fails for \<^verbatim>\<open>GetAcceptedStateSummary\<close> on an empty key list: the handler
  returns nil having called nothing on the nil value.
\<close>

theorem C9_empty_keys_counterexample:
  "GetAcceptedStateSummary (\<lparr>stateSyncable = None\<rparr> :: unit ChainVM) 7 1 [] =
     ([LogDebug ''GetAcceptedStateSummary'' 7 1, SendAcceptedStateSummary 7 1 []],
      Returned None)"
  by (simp add: GetAcceptedStateSummary_def assertStateSyncableVM_def)

end
